theory Spec2Isabelle
  imports Main "HOL-Library.AList"
begin

section \<open>Python values, errors and results\<close>

text \<open>
  The scripts are Python. A scalar that the code only passes on (a JSON number, a string,
  an id) is a \<open>pyval\<close>. Floating-point numbers are kept abstract: the type
  parameter \<open>'f\<close> stands for Python's float, and no arithmetic on it is assumed.
  A datetime of the generators is always \<open>START_DATE + timedelta(seconds=n)\<close>, so it
  is represented by the offset \<open>n\<close>.
\<close>

datatype 'f pyval = PyInt int | PyStr string | PyFloat 'f | PyDateTime int

text \<open>
  The exceptions the scripts can meet: a missing dictionary key, an empty or too short
  sequence, and any exception raised inside psycopg2 or pymongo (\<open>ClientError\<close>).
\<close>

datatype py_error = KeyError | IndexError | ValueError | ClientError

text \<open>
  A call either raises or returns. No function of \<^verbatim>\<open>ingest_benchmark.py\<close> has a
  \<^verbatim>\<open>try\<close> block, so the first exception ends the run; \<open>and_then\<close> is
  sequential composition with that behaviour, \<open>for_each\<close> is the \<^verbatim>\<open>for\<close> loop.
\<close>

definition and_then :: "'e + 'a \<Rightarrow> ('a \<Rightarrow> 'e + 'b) \<Rightarrow> 'e + 'b" where
  "and_then r f = (case r of Inl e \<Rightarrow> Inl e | Inr a \<Rightarrow> f a)"

fun for_each :: "('a \<Rightarrow> 's \<Rightarrow> 'e + 's) \<Rightarrow> 'a list \<Rightarrow> 's \<Rightarrow> 'e + 's" where
  "for_each body [] s = Inr s"
| "for_each body (x # xs) s = and_then (body x s) (for_each body xs)"

section \<open>The PostgreSQL connection\<close>

text \<open>
  A SQL script is a list of statements. Only the kind of a statement matters here: data
  definition, a multi-row \<^verbatim>\<open>INSERT\<close>, or \<^verbatim>\<open>COMMIT\<close>.
\<close>

datatype 'f sql_stmt =
    DdlStmt string
  | InsertStmt string "string list" "'f pyval list list"
  | CommitStmt

text \<open>
  What the code asks of psycopg2: \<^verbatim>\<open>psycopg2.connect(...)\<close> with the configured
  host, port, user, password and database, \<^verbatim>\<open>cur.execute(script)\<close>,
  \<^verbatim>\<open>cur.copy_expert("COPY table (columns) FROM STDIN WITH (FORMAT text)", buffer)\<close> and
  \<^verbatim>\<open>conn.commit()\<close>. The \<^verbatim>\<open>COPY\<close> buffer is kept as rows of values instead of
  the tab-separated text that \<^verbatim>\<open>copy_rows\<close> builds from them with \<^verbatim>\<open>str\<close>.

  The state of a connection is the list of calls it has executed, oldest first. The
  server and the driver are a parameter \<open>cl\<close>: \<open>cl log op\<close> tells whether the call
  \<open>op\<close> raises after the calls \<open>log\<close> went through. Only the calls that the source
  makes are recorded: what the connection does by itself when its \<^verbatim>\<open>with\<close> block is
  left belongs to the driver.
\<close>

datatype 'f pg_op =
    Connect
  | Execute "'f sql_stmt list"
  | CopyExpert string "string list" "'f pyval list list"
  | Commit

type_synonym 'f pg_log = "'f pg_op list"
type_synonym 'f pg_client = "'f pg_log \<Rightarrow> 'f pg_op \<Rightarrow> bool"
type_synonym ('f, 'a) pg_result = "(py_error \<times> 'f pg_log) + 'a"

definition pg_call :: "'f pg_client \<Rightarrow> 'f pg_op \<Rightarrow> 'f pg_log \<Rightarrow> ('f, 'f pg_log) pg_result" where
  "pg_call cl op log = (if cl log op then Inl (ClientError, log) else Inr (log @ [op]))"

definition never_fails :: "'f pg_client" where
  "never_fails log op = False"

text \<open>\<^verbatim>\<open>str.lower\<close> on the ASCII letters, which is all a table name holds.\<close>

definition lower_char :: "char \<Rightarrow> char" where
  "lower_char c =
     (let n = (of_char c :: nat) in if 65 \<le> n \<and> n \<le> 90 then char_of (n + 32) else c)"

definition lower :: "string \<Rightarrow> string" where
  "lower s = map lower_char s"

text \<open>
  \<^verbatim>\<open>copy_rows(cur, table, columns, rows)\<close>: nothing at all for an empty \<open>rows\<close>,
  one \<^verbatim>\<open>COPY\<close> of all rows otherwise.
\<close>

definition copy_rows ::
  "'f pg_client \<Rightarrow> 'f pg_log \<Rightarrow> string \<Rightarrow> string list \<Rightarrow> 'f pyval list list
     \<Rightarrow> ('f, 'f pg_log) pg_result" where
  "copy_rows cl cur table columns rows =
     (if rows = [] then Inr cur
      else pg_call cl (CopyExpert (lower table) columns rows) cur)"

section \<open>The JSON documents\<close>

text \<open>
  The documents as \<^verbatim>\<open>json.loads\<close> returns them. A field the code reads with
  \<^verbatim>\<open>d["k"]\<close> is a field of the record; a field it reads with \<^verbatim>\<open>d.get("k", default)\<close>
  is optional. Names and e-mail addresses are dictionary keys in the loader and are
  strings; numbers are only passed on.
\<close>

record 'f product_doc =
  prod_name :: string
  prod_category :: string
  prod_price :: "'f pyval"

record emp_doc =
  emp_first_name :: string
  emp_last_name :: string
  emp_position :: "string option"

record 'f inv_doc =
  inv_product :: "'f product_doc"
  inv_quantity :: "'f pyval"

record 'f store_doc =
  store_name :: string
  store_address :: "string option"
  store_employees :: "emp_doc list option"
  store_inventory :: "'f inv_doc list option"

datatype ts_json = TsDate string | TsPlain string

record customer_doc =
  cust_first_name :: string
  cust_last_name :: string
  cust_email :: string

record 'f line_doc =
  line_product :: "'f product_doc"
  line_quantity :: "'f pyval"
  line_total :: "'f pyval"

record 'f sale_doc =
  sale_timestamp :: ts_json
  sale_store_name :: string
  sale_emp_first_name :: string
  sale_emp_last_name :: string
  sale_customer :: customer_doc
  sale_lines :: "'f line_doc list"
  sale_total_amount :: "'f pyval"

text \<open>\<^verbatim>\<open>d.get(k, default)\<close> on an optional field.\<close>

definition get_or :: "'a option \<Rightarrow> 'a \<Rightarrow> 'a" where
  "get_or v d = (case v of None \<Rightarrow> d | Some x \<Rightarrow> x)"

section \<open>\<^verbatim>\<open>load_postgres_from_json\<close>\<close>

text \<open>
  A Python \<^verbatim>\<open>dict\<close> is an association list with distinct keys in insertion order:
  \<^verbatim>\<open>d[k] = v\<close> is \<open>AList.update k v d\<close>, \<^verbatim>\<open>k in d\<close> is \<open>map_of d k \<noteq> None\<close>,
  \<^verbatim>\<open>len(d)\<close> is \<open>length d\<close>.

  The local variables of the function, with the cursor:
\<close>

record 'f ingest =
  category_map :: "(string \<times> int) list"
  product_map :: "(string \<times> int) list"
  store_map :: "(string \<times> int) list"
  employee_map :: "((string \<times> string \<times> int) \<times> int) list"
  next_cat :: int
  next_prod :: int
  next_emp :: int
  customers_map :: "(string \<times> int) list"
  next_cust :: int
  next_sale :: int
  cur :: "'f pg_log"

definition with_cur ::
  "'f ingest \<Rightarrow> ('f, 'f pg_log) pg_result \<Rightarrow> ('f, 'f ingest) pg_result" where
  "with_cur s r = and_then r (\<lambda>c. Inr (s\<lparr>cur := c\<rparr>))"

text \<open>The body of \<^verbatim>\<open>for emp in store_doc.get("employees", [])\<close>.\<close>

definition employee_body ::
  "'f pg_client \<Rightarrow> int \<Rightarrow> emp_doc \<Rightarrow> 'f ingest \<Rightarrow> ('f, 'f ingest) pg_result" where
  "employee_body cl s_id emp s =
     (let eid = next_emp s;
          s1 = s\<lparr>next_emp := next_emp s + 1\<rparr>;
          s2 = s1\<lparr>employee_map :=
                 AList.update (emp_first_name emp, emp_last_name emp, s_id) eid (employee_map s1)\<rparr>
      in with_cur s2
           (copy_rows cl (cur s2) ''employee''
              [''employee_id'', ''first_name'', ''last_name'', ''position'', ''store_id'']
              [[PyInt eid, PyStr (emp_first_name emp), PyStr (emp_last_name emp),
                PyStr (get_or (emp_position emp) ''''), PyInt s_id]]))"

text \<open>
  The body of \<^verbatim>\<open>for inv in store_doc.get("inventory", [])\<close>: a new category name gets
  the next category id and a row, a new product name the next product id and a row, and
  every entry an inventory row.
\<close>

definition category_part ::
  "'f pg_client \<Rightarrow> string \<Rightarrow> 'f ingest \<Rightarrow> ('f, 'f ingest) pg_result" where
  "category_part cl cat_name s =
     (if map_of (category_map s) cat_name = None then
        (let s1 = s\<lparr>category_map := AList.update cat_name (next_cat s) (category_map s)\<rparr>;
             s2 = s1\<lparr>next_cat := next_cat s1 + 1\<rparr>
         in case map_of (category_map s2) cat_name of
              None \<Rightarrow> Inl (KeyError, cur s2)
            | Some c \<Rightarrow>
                with_cur s2
                  (copy_rows cl (cur s2) ''category'' [''category_id'', ''name'']
                     [[PyInt c, PyStr cat_name]]))
      else Inr s)"

definition product_part ::
  "'f pg_client \<Rightarrow> 'f product_doc \<Rightarrow> string \<Rightarrow> 'f ingest \<Rightarrow> ('f, 'f ingest) pg_result" where
  "product_part cl prd cat_name s =
     (if map_of (product_map s) (prod_name prd) = None then
        (let pid = next_prod s;
             s1 = s\<lparr>next_prod := next_prod s + 1\<rparr>;
             s2 = s1\<lparr>product_map := AList.update (prod_name prd) pid (product_map s1)\<rparr>
         in case map_of (category_map s2) cat_name of
              None \<Rightarrow> Inl (KeyError, cur s2)
            | Some c \<Rightarrow>
                with_cur s2
                  (copy_rows cl (cur s2) ''product''
                     [''product_id'', ''name'', ''price'', ''category_id'']
                     [[PyInt pid, PyStr (prod_name prd), prod_price prd, PyInt c]]))
      else Inr s)"

definition inventory_body ::
  "'f pg_client \<Rightarrow> int \<Rightarrow> 'f inv_doc \<Rightarrow> 'f ingest \<Rightarrow> ('f, 'f ingest) pg_result" where
  "inventory_body cl s_id inv' s =
     (let prd = inv_product inv';
          cat_name = prod_category prd
      in and_then (category_part cl cat_name s) (\<lambda>s1.
         and_then (product_part cl prd cat_name s1) (\<lambda>s2.
           case map_of (product_map s2) (prod_name prd) of
             None \<Rightarrow> Inl (KeyError, cur s2)
           | Some p \<Rightarrow>
               with_cur s2
                 (copy_rows cl (cur s2) ''inventory'' [''store_id'', ''product_id'', ''quantity'']
                    [[PyInt s_id, PyInt p, inv_quantity inv']]))))"

text \<open>The body of \<^verbatim>\<open>for store_doc in catalog\<close>.\<close>

definition store_body ::
  "'f pg_client \<Rightarrow> 'f store_doc \<Rightarrow> 'f ingest \<Rightarrow> ('f, 'f ingest) pg_result" where
  "store_body cl store_doc s =
     (let s_id = int (length (store_map s)) + 1;
          s1 = s\<lparr>store_map := AList.update (store_name store_doc) s_id (store_map s)\<rparr>
      in and_then
           (with_cur s1
              (copy_rows cl (cur s1) ''store'' [''store_id'', ''name'', ''address'']
                 [[PyInt s_id, PyStr (store_name store_doc),
                   PyStr (get_or (store_address store_doc) '''')]])) (\<lambda>s2.
         and_then (for_each (employee_body cl s_id) (get_or (store_employees store_doc) []) s2)
           (for_each (inventory_body cl s_id) (get_or (store_inventory store_doc) []))))"

text \<open>\<^verbatim>\<open>extract_ts\<close>: an Extended-JSON date loses every \<^verbatim>\<open>Z\<close>, a plain string is kept.\<close>

definition extract_ts :: "ts_json \<Rightarrow> string" where
  "extract_ts ts = (case ts of TsDate d \<Rightarrow> filter (\<lambda>c. c \<noteq> CHR ''Z'') d | TsPlain t \<Rightarrow> t)"

text \<open>
  The body of \<^verbatim>\<open>for ln in sale["lines"]\<close>, on the pair of \<^verbatim>\<open>line_no\<close> and the other
  variables: a line whose product name is not in \<^verbatim>\<open>product_map\<close> is skipped by
  \<^verbatim>\<open>continue\<close> and does not advance \<^verbatim>\<open>line_no\<close>.
\<close>

definition line_body ::
  "'f pg_client \<Rightarrow> int \<Rightarrow> 'f line_doc \<Rightarrow> int \<times> 'f ingest \<Rightarrow> ('f, int \<times> 'f ingest) pg_result" where
  "line_body cl sale_id ln st =
     (case st of (line_no, s) \<Rightarrow>
        (case map_of (product_map s) (prod_name (line_product ln)) of
           None \<Rightarrow> Inr (line_no, s)
         | Some prod_id \<Rightarrow>
             and_then
               (with_cur s
                  (copy_rows cl (cur s) ''saleline''
                     [''sale_id'', ''line_number'', ''product_id'', ''quantity'', ''unit_price'',
                      ''line_total'']
                     [[PyInt sale_id, PyInt line_no, PyInt prod_id, line_quantity ln,
                       prod_price (line_product ln), line_total ln]]))
               (\<lambda>s1. Inr (line_no + 1, s1))))"

text \<open>
  The first half of the body of \<^verbatim>\<open>for sale in sales_docs\<close>: a new customer e-mail gets
  the next customer id and a row.
\<close>

definition customer_part ::
  "'f pg_client \<Rightarrow> customer_doc \<Rightarrow> 'f ingest \<Rightarrow> ('f, 'f ingest) pg_result" where
  "customer_part cl c s =
     (if map_of (customers_map s) (cust_email c) = None then
        (let cid = next_cust s;
             s1 = s\<lparr>next_cust := next_cust s + 1\<rparr>;
             s2 = s1\<lparr>customers_map := AList.update (cust_email c) cid (customers_map s1)\<rparr>
         in with_cur s2
              (copy_rows cl (cur s2) ''customer''
                 [''customer_id'', ''first_name'', ''last_name'', ''email'']
                 [[PyInt cid, PyStr (cust_first_name c), PyStr (cust_last_name c),
                   PyStr (cust_email c)]]))
      else Inr s)"

definition sale_body ::
  "'f pg_client \<Rightarrow> 'f sale_doc \<Rightarrow> 'f ingest \<Rightarrow> ('f, 'f ingest) pg_result" where
  "sale_body cl sale s =
     (let cust_email' = cust_email (sale_customer sale)
      in and_then (customer_part cl (sale_customer sale) s) (\<lambda>s1.
         case map_of (store_map s1) (sale_store_name sale) of
           None \<Rightarrow> Inl (KeyError, cur s1)
         | Some store_id \<Rightarrow>
         (case map_of (employee_map s1)
                 (sale_emp_first_name sale, sale_emp_last_name sale, store_id) of
           None \<Rightarrow> Inl (KeyError, cur s1)
         | Some employee_id \<Rightarrow>
         (let sale_id = next_sale s1;
              s2 = s1\<lparr>next_sale := next_sale s1 + 1\<rparr>;
              ts_value = extract_ts (sale_timestamp sale)
          in case map_of (customers_map s2) cust_email' of
               None \<Rightarrow> Inl (KeyError, cur s2)
             | Some customer_id \<Rightarrow>
                 and_then
                   (with_cur s2
                      (copy_rows cl (cur s2) ''sale''
                         [''sale_id'', ''sale_timestamp'', ''customer_id'', ''store_id'',
                          ''employee_id'', ''total_amount'']
                         [[PyInt sale_id, PyStr ts_value, PyInt customer_id, PyInt store_id,
                           PyInt employee_id, sale_total_amount sale]])) (\<lambda>s3.
                 and_then (for_each (line_body cl sale_id) (sale_lines sale) (1, s3))
                   (\<lambda>st. Inr (snd st)))))))"

text \<open>
  The whole function, on the parsed files: \<open>ddl\<close> is the schema script
  \<^verbatim>\<open>sql/commerce_schema.sql\<close>, \<open>catalog\<close> is \<^verbatim>\<open>json/stores_catalog.json\<close> and
  \<open>sales_docs\<close> is \<^verbatim>\<open>json/sales_docs.json\<close>. It starts on a fresh connection and
  returns the calls that connection executed; when an exception ends the run, the result
  is the exception with the calls executed until then.
\<close>

definition ingest_init :: "'f pg_log \<Rightarrow> 'f ingest" where
  "ingest_init c =
     \<lparr>category_map = [], product_map = [], store_map = [], employee_map = [],
      next_cat = 1, next_prod = 1, next_emp = 1,
      customers_map = [], next_cust = 1, next_sale = 1, cur = c\<rparr>"

definition load_postgres_from_json ::
  "'f pg_client \<Rightarrow> 'f sql_stmt list \<Rightarrow> 'f store_doc list \<Rightarrow> 'f sale_doc list
     \<Rightarrow> ('f, 'f pg_log) pg_result" where
  "load_postgres_from_json cl ddl catalog sales_docs =
     and_then (pg_call cl Connect []) (\<lambda>conn.
     and_then (pg_call cl (Execute ddl) conn) (\<lambda>c.
     and_then (for_each (store_body cl) catalog (ingest_init c)) (\<lambda>s.
     and_then (for_each (sale_body cl) sales_docs s) (\<lambda>s'.
       pg_call cl Commit (cur s')))))"

text \<open>\<^verbatim>\<open>load_postgres_sql\<close>: the whole script \<^verbatim>\<open>sql/commerce_load.sql\<close> in one
  \<^verbatim>\<open>execute\<close>, then the commit.\<close>

definition load_postgres_sql :: "'f pg_client \<Rightarrow> 'f sql_stmt list \<Rightarrow> ('f, 'f pg_log) pg_result" where
  "load_postgres_sql cl sql_file =
     and_then (pg_call cl Connect []) (\<lambda>conn.
     and_then (pg_call cl (Execute sql_file) conn) (\<lambda>c. pg_call cl Commit c))"


section \<open>The MongoDB loaders\<close>

text \<open>
  What the code asks of pymongo: \<^verbatim>\<open>MongoClient(MONGO_URI)\<close>, \<^verbatim>\<open>coll.drop()\<close> and
  \<^verbatim>\<open>coll.insert_many(docs)\<close> on a collection of the database \<^verbatim>\<open>commerce\<close>, and
  \<^verbatim>\<open>client.close()\<close>. A client is modelled as for PostgreSQL.
\<close>

datatype 'f mongo_op =
    MongoClient
  | Drop string string
  | InsertStores string string "'f store_doc list"
  | InsertSales string string "'f sale_doc list"
  | Close

type_synonym 'f mongo_log = "'f mongo_op list"
type_synonym 'f mongo_client = "'f mongo_log \<Rightarrow> 'f mongo_op \<Rightarrow> bool"
type_synonym 'f mongo_result = "(py_error \<times> 'f mongo_log) + 'f mongo_log"

definition mongo_call :: "'f mongo_client \<Rightarrow> 'f mongo_op \<Rightarrow> 'f mongo_log \<Rightarrow> 'f mongo_result" where
  "mongo_call cl op log = (if cl log op then Inl (ClientError, log) else Inr (log @ [op]))"

definition mongo_never_fails :: "'f mongo_client" where
  "mongo_never_fails log op = False"

definition load_mongo_catalog :: "'f mongo_client \<Rightarrow> 'f store_doc list \<Rightarrow> 'f mongo_result" where
  "load_mongo_catalog cl docs =
     and_then (mongo_call cl MongoClient []) (\<lambda>client.
     and_then (mongo_call cl (Drop ''commerce'' ''stores'') client) (\<lambda>c1.
     and_then (mongo_call cl (InsertStores ''commerce'' ''stores'' docs) c1) (\<lambda>c2.
       mongo_call cl Close c2)))"

text \<open>
  \<^verbatim>\<open>[docs[i:i+CHUNK] for i in range(0, len(docs), CHUNK)]\<close>: the start indices are the
  multiples of \<^verbatim>\<open>CHUNK\<close> below \<^verbatim>\<open>len(docs)\<close>.
\<close>

definition CHUNK :: nat where
  "CHUNK = 2000"

definition range_step :: "nat \<Rightarrow> nat \<Rightarrow> nat list" where
  "range_step n step = map (\<lambda>k. k * step) [0..<(n + step - 1) div step]"

definition chunked :: "nat \<Rightarrow> 'a list \<Rightarrow> 'a list list" where
  "chunked n docs = map (\<lambda>i. take n (drop i docs)) (range_step (length docs) n)"

definition load_mongo_sales :: "'f mongo_client \<Rightarrow> 'f sale_doc list \<Rightarrow> 'f mongo_result" where
  "load_mongo_sales cl docs =
     and_then (mongo_call cl MongoClient []) (\<lambda>client.
     and_then (mongo_call cl (Drop ''commerce'' ''sales'') client) (\<lambda>c1.
     and_then
       (for_each (\<lambda>chunk c. mongo_call cl (InsertSales ''commerce'' ''sales'' chunk) c)
          (chunked CHUNK docs) c1) (\<lambda>c2.
       mongo_call cl Close c2)))"

section \<open>\<^verbatim>\<open>timed\<close> and \<^verbatim>\<open>main\<close>\<close>

text \<open>
  The clock is a parameter: \<open>perf_counter n\<close> is what the \<open>n\<close>-th call of
  \<^verbatim>\<open>time.perf_counter()\<close> returns, a float, and \<open>fsub\<close> is the subtraction of floats.
  \<^verbatim>\<open>timed(label)(fn)()\<close> reads the clock, runs \<^verbatim>\<open>fn\<close>, reads the clock again and
  returns the difference with the result of \<^verbatim>\<open>fn\<close>; when \<^verbatim>\<open>fn\<close> raises, so does the
  wrapper. The first argument is the number of clock readings made before, the result
  carries the number made after. What the wrapper prints is left out.
\<close>

definition timed ::
  "(nat \<Rightarrow> 'f) \<Rightarrow> ('f \<Rightarrow> 'f \<Rightarrow> 'f) \<Rightarrow> nat \<Rightarrow> (py_error \<times> 'l) + 'a
     \<Rightarrow> py_error + ('f \<times> 'a) \<times> nat" where
  "timed perf_counter fsub n fn =
     (let t0 = perf_counter n
      in case fn of
           Inl (e, l) \<Rightarrow> Inl e
         | Inr result \<Rightarrow>
             (let dt = fsub (perf_counter (n + 1)) t0 in Inr ((dt, result), n + 2)))"

text \<open>
  \<^verbatim>\<open>main\<close>, on the four input files and with one client for each connection that the
  loaders open. It returns what the run leaves behind: the calls of each loader and the
  rows of \<^verbatim>\<open>ingest_times.csv\<close>, as \<^verbatim>\<open>csv.writer\<close> receives them. An exception of a
  loader leaves \<^verbatim>\<open>main\<close> as it is, since nothing catches it.
\<close>

record 'f benchmark =
  pg_sql_calls :: "'f pg_log"
  pg_json_calls :: "'f pg_log"
  mongo_catalog_calls :: "'f mongo_log"
  mongo_sales_calls :: "'f mongo_log"
  ingest_times_csv :: "'f pyval list list"

definition main ::
  "(nat \<Rightarrow> 'f) \<Rightarrow> ('f \<Rightarrow> 'f \<Rightarrow> 'f) \<Rightarrow> 'f pg_client \<Rightarrow> 'f pg_client \<Rightarrow> 'f mongo_client
     \<Rightarrow> 'f mongo_client \<Rightarrow> 'f sql_stmt list \<Rightarrow> 'f sql_stmt list \<Rightarrow> 'f store_doc list
     \<Rightarrow> 'f sale_doc list \<Rightarrow> py_error + 'f benchmark" where
  "main perf_counter fsub cl_sql cl_json cl_catalog cl_sales sql_file ddl catalog sales_docs =
     (let results = []
      in and_then (timed perf_counter fsub 0 (load_postgres_sql cl_sql sql_file))
           (\<lambda>((dt_pg_sql, log_sql), n1).
         let results = results @ [(''postgres_sql'', dt_pg_sql)]
         in and_then
              (timed perf_counter fsub n1 (load_postgres_from_json cl_json ddl catalog sales_docs))
              (\<lambda>((dt_pg_json, log_json), n2).
            let results = results @ [(''postgres_json'', dt_pg_json)]
            in and_then (timed perf_counter fsub n2 (load_mongo_catalog cl_catalog catalog))
                 (\<lambda>((dt_cat, log_cat), n3).
               and_then (timed perf_counter fsub n3 (load_mongo_sales cl_sales sales_docs))
                 (\<lambda>((dt_sales, log_sales), n4).
                  let results = results @ [(''mongo_catalog'', dt_cat), (''mongo_sales'', dt_sales)]
                  in Inr \<lparr>pg_sql_calls = log_sql, pg_json_calls = log_json,
                          mongo_catalog_calls = log_cat, mongo_sales_calls = log_sales,
                          ingest_times_csv =
                            [PyStr ''step'', PyStr ''duration_seconds''] #
                            map (\<lambda>(step, dt). [PyStr step, PyFloat dt]) results\<rparr>)))))"

section \<open>The generators\<close>

text \<open>
  \<^verbatim>\<open>sql/generator.py\<close> and \<^verbatim>\<open>json/generator.py\<close> are scripts. Both first make the
  base tables with Faker and \<^verbatim>\<open>random\<close>, then the sales, and then write their files.
  The base tables are taken as given here; the SQL generator holds a row as a tuple and the
  JSON generator as a dictionary with the same fields, and one record stands for both.
\<close>

record 'f product =
  product_id :: int
  product_name :: string
  product_price :: 'f
  product_category_id :: int

record store =
  st_id :: int
  st_name :: string
  st_address :: string

record employee =
  e_id :: int
  e_first_name :: string
  e_last_name :: string
  e_position :: string
  e_store_id :: int

record customer =
  c_id :: int
  c_first_name :: string
  c_last_name :: string
  c_email :: string

record inventory_entry =
  i_store_id :: int
  i_product_id :: int
  i_quantity :: int

record 'f base =
  categories :: "(int \<times> string) list"
  products :: "'f product list"
  stores :: "store list"
  employees :: "employee list"
  customers :: "customer list"
  inventory :: "inventory_entry list"

record 'f sale_hdr =
  sh_sale_id :: int
  sh_timestamp :: int
  sh_customer_id :: int
  sh_store_id :: int
  sh_employee_id :: int
  sh_total_amount :: 'f

record 'f sale_line =
  sl_sale_id :: int
  sl_line_number :: int
  sl_product_id :: int
  sl_quantity :: int
  sl_unit_price :: 'f
  sl_line_total :: 'f

definition MIN_LINES :: int where
  "MIN_LINES = 1"

definition MAX_LINES :: int where
  "MAX_LINES = 10"

definition BATCH_SIZE :: nat where
  "BATCH_SIZE = 1000"

text \<open>
  \<^verbatim>\<open>int((END_DATE - START_DATE).total_seconds())\<close>: the 730 days from 2023-05-23 to
  2025-05-22, in seconds.
\<close>

definition DATE_RANGE_SECONDS :: int where
  "DATE_RANGE_SECONDS = 730 * 86400"

subsection \<open>Randomness and floats\<close>

text \<open>
  The random source is a parameter \<open>rnd\<close>, a sequence of numbers, read at a position that
  every draw advances. \<^verbatim>\<open>random.randint(a, b)\<close> is some integer from \<open>a\<close> to \<open>b\<close>
  and raises for an empty range; \<^verbatim>\<open>random.choice(xs)\<close> is some element of \<open>xs\<close> and
  raises for an empty \<open>xs\<close>; \<^verbatim>\<open>random.sample(xs, k)\<close> takes \<open>k\<close> elements at
  different positions of \<open>xs\<close>, in some order, and raises when \<open>xs\<close> is shorter than
  \<open>k\<close> or \<open>k\<close> is negative. As \<open>rnd\<close> ranges over all sequences, each function
  ranges over all the results the library can give.
\<close>

definition randint :: "(nat \<Rightarrow> nat) \<Rightarrow> int \<Rightarrow> int \<Rightarrow> nat \<Rightarrow> py_error + int \<times> nat" where
  "randint rnd a b pos =
     (if b < a then Inl ValueError
      else Inr (a + int (rnd pos mod nat (b - a + 1)), pos + 1))"

definition choice :: "(nat \<Rightarrow> nat) \<Rightarrow> 'a list \<Rightarrow> nat \<Rightarrow> py_error + 'a \<times> nat" where
  "choice rnd xs pos =
     (if xs = [] then Inl IndexError else Inr (xs ! (rnd pos mod length xs), pos + 1))"

fun draw :: "(nat \<Rightarrow> nat) \<Rightarrow> 'a list \<Rightarrow> nat \<Rightarrow> nat \<Rightarrow> 'a list \<times> nat" where
  "draw rnd pool 0 pos = ([], pos)"
| "draw rnd pool (Suc k) pos =
     (let i = rnd pos mod length pool;
          rest = draw rnd (take i pool @ drop (Suc i) pool) k (pos + 1)
      in (pool ! i # fst rest, snd rest))"

definition sample :: "(nat \<Rightarrow> nat) \<Rightarrow> 'a list \<Rightarrow> int \<Rightarrow> nat \<Rightarrow> py_error + 'a list \<times> nat" where
  "sample rnd population k pos =
     (if k < 0 \<or> int (length population) < k then Inl ValueError
      else Inr (draw rnd population (nat k) pos))"

text \<open>
  The floating-point operations the sales loop uses, uninterpreted: the float \<^verbatim>\<open>0.0\<close>,
  \<^verbatim>\<open>x + y\<close>, \<^verbatim>\<open>x * n\<close> for an integer \<open>n\<close>, and \<^verbatim>\<open>round(x, 2)\<close>.
\<close>

record 'f float_ops =
  fzero :: 'f
  fadd :: "'f \<Rightarrow> 'f \<Rightarrow> 'f"
  fmul_int :: "'f \<Rightarrow> int \<Rightarrow> 'f"
  fround2 :: "'f \<Rightarrow> 'f"

text \<open>
  \<^verbatim>\<open>customers[zipf_indices[i]]\<close>, where \<^verbatim>\<open>zipf_indices = zipf(...) % CUSTOMERS\<close> and
  \<^verbatim>\<open>CUSTOMERS\<close> is the number of customers; \<open>zipf_samples i\<close> is the \<open>i\<close>-th sample.
\<close>

definition zipf_customer :: "(nat \<Rightarrow> nat) \<Rightarrow> customer list \<Rightarrow> nat \<Rightarrow> py_error + customer" where
  "zipf_customer zipf_samples cs i =
     (let idx = zipf_samples i mod length cs
      in if idx < length cs then Inr (cs ! idx) else Inl IndexError)"

subsection \<open>The sales loop of \<^verbatim>\<open>sql/generator.py\<close>\<close>

text \<open>
  The state of the loop: the lists \<^verbatim>\<open>sales\<close> and \<^verbatim>\<open>sale_lines\<close>,
  \<^verbatim>\<open>next_sale_id\<close>, and the position of the random source.
\<close>

record 'f sales_state =
  g_sales :: "'f sale_hdr list"
  g_sale_lines :: "'f sale_line list"
  g_next_sale_id :: int
  g_pos :: nat

text \<open>
  The body of \<^verbatim>\<open>for prod in products_in_sale\<close>, on \<^verbatim>\<open>sale_lines\<close>,
  \<^verbatim>\<open>total_amount\<close>, \<^verbatim>\<open>line_number\<close> and the random position.
\<close>

definition sql_line_body ::
  "'f float_ops \<Rightarrow> (nat \<Rightarrow> nat) \<Rightarrow> int \<Rightarrow> 'f product
     \<Rightarrow> 'f sale_line list \<times> 'f \<times> int \<times> nat
     \<Rightarrow> py_error + 'f sale_line list \<times> 'f \<times> int \<times> nat" where
  "sql_line_body fo rnd sale_id prd st =
     (case st of (sale_lines', total_amount, line_number, pos) \<Rightarrow>
        and_then (randint rnd 1 5 pos) (\<lambda>(quantity, pos').
          let unit_price = product_price prd;
              line_total = fround2 fo (fmul_int fo unit_price quantity)
          in Inr (sale_lines' @
                    [\<lparr>sl_sale_id = sale_id, sl_line_number = line_number,
                      sl_product_id = product_id prd, sl_quantity = quantity,
                      sl_unit_price = unit_price, sl_line_total = line_total\<rparr>],
                  fadd fo total_amount line_total, line_number + 1, pos')))"

text \<open>The body of \<^verbatim>\<open>for i in range(SALES)\<close>.\<close>

definition sql_sale_body ::
  "'f float_ops \<Rightarrow> (nat \<Rightarrow> nat) \<Rightarrow> (nat \<Rightarrow> nat) \<Rightarrow> 'f base \<Rightarrow> nat \<Rightarrow> 'f sales_state
     \<Rightarrow> py_error + 'f sales_state" where
  "sql_sale_body fo rnd zipf_samples b i s =
     (let sale_id = g_next_sale_id s
      in and_then (randint rnd 0 DATE_RANGE_SECONDS (g_pos s)) (\<lambda>(sale_timestamp, p1).
         and_then (choice rnd (stores b) p1) (\<lambda>(store', p2).
         let store_id = st_id store';
             employees_in_store = filter (\<lambda>e. e_store_id e = store_id) (employees b)
         in and_then (choice rnd employees_in_store p2) (\<lambda>(emp, p3).
            let employee_id = e_id emp
            in and_then (zipf_customer zipf_samples (customers b) i) (\<lambda>cust.
               let customer_id = c_id cust
               in and_then (randint rnd MIN_LINES MAX_LINES p3) (\<lambda>(n_lines, p4).
                  and_then (sample rnd (products b) n_lines p4) (\<lambda>(products_in_sale, p5).
                  and_then
                    (for_each (sql_line_body fo rnd sale_id) products_in_sale
                       (g_sale_lines s, fzero fo, 1, p5))
                    (\<lambda>(sale_lines', total_amount, line_number, p6).
                       let total_amount = fround2 fo total_amount
                       in Inr \<lparr>g_sales = g_sales s @
                                  [\<lparr>sh_sale_id = sale_id, sh_timestamp = sale_timestamp,
                                    sh_customer_id = customer_id, sh_store_id = store_id,
                                    sh_employee_id = employee_id,
                                    sh_total_amount = total_amount\<rparr>],
                                g_sale_lines = sale_lines',
                                g_next_sale_id = sale_id + 1, g_pos = p6\<rparr>))))))))"

definition sql_sales ::
  "'f float_ops \<Rightarrow> (nat \<Rightarrow> nat) \<Rightarrow> (nat \<Rightarrow> nat) \<Rightarrow> 'f base \<Rightarrow> nat \<Rightarrow> nat
     \<Rightarrow> py_error + 'f sales_state" where
  "sql_sales fo rnd zipf_samples b SALES pos =
     for_each (sql_sale_body fo rnd zipf_samples b) [0..<SALES]
       \<lparr>g_sales = [], g_sale_lines = [], g_next_sale_id = 1, g_pos = pos\<rparr>"

subsection \<open>The sales loop of \<^verbatim>\<open>json/generator.py\<close>\<close>

text \<open>
  The body of \<^verbatim>\<open>for line_num, prod in enumerate(chosen, start=1)\<close>, on
  \<^verbatim>\<open>sale_lines\<close>, \<^verbatim>\<open>total\<close> and the random position.
\<close>

definition json_line_body ::
  "'f float_ops \<Rightarrow> (nat \<Rightarrow> nat) \<Rightarrow> int \<Rightarrow> int \<times> 'f product
     \<Rightarrow> 'f sale_line list \<times> 'f \<times> nat \<Rightarrow> py_error + 'f sale_line list \<times> 'f \<times> nat" where
  "json_line_body fo rnd sale_id x st =
     (case x of (line_num, prd) \<Rightarrow>
      case st of (sale_lines', total', pos) \<Rightarrow>
        and_then (randint rnd 1 5 pos) (\<lambda>(qty, pos').
          let line_total = fround2 fo (fmul_int fo (product_price prd) qty)
          in Inr (sale_lines' @
                    [\<lparr>sl_sale_id = sale_id, sl_line_number = line_num,
                      sl_product_id = product_id prd, sl_quantity = qty,
                      sl_unit_price = product_price prd, sl_line_total = line_total\<rparr>],
                  fadd fo total' line_total, pos')))"

text \<open>\<^verbatim>\<open>enumerate(xs, start=1)\<close>.\<close>

definition enumerate1 :: "'a list \<Rightarrow> (int \<times> 'a) list" where
  "enumerate1 xs = zip (map (\<lambda>i. int i + 1) [0..<length xs]) xs"

text \<open>
  The body of \<^verbatim>\<open>for sale_id in range(1, SALES + 1)\<close>, on \<^verbatim>\<open>sales_hdr\<close>,
  \<^verbatim>\<open>sale_lines\<close> and the random position; the timestamp is drawn last, when the header
  is built.
\<close>

definition json_sale_body ::
  "'f float_ops \<Rightarrow> (nat \<Rightarrow> nat) \<Rightarrow> (nat \<Rightarrow> nat) \<Rightarrow> 'f base \<Rightarrow> int
     \<Rightarrow> 'f sale_hdr list \<times> 'f sale_line list \<times> nat
     \<Rightarrow> py_error + 'f sale_hdr list \<times> 'f sale_line list \<times> nat" where
  "json_sale_body fo rnd zipf_ids b sale_id s =
     (case s of (sales_hdr, sale_lines', p0) \<Rightarrow>
        and_then (choice rnd (stores b) p0) (\<lambda>(st, p1).
        and_then (choice rnd (filter (\<lambda>e. e_store_id e = st_id st) (employees b)) p1)
          (\<lambda>(emp, p2).
        and_then (zipf_customer zipf_ids (customers b) (nat (sale_id - 1))) (\<lambda>cust.
        and_then (randint rnd MIN_LINES MAX_LINES p2) (\<lambda>(n_lines, p3).
        and_then (sample rnd (products b) n_lines p3) (\<lambda>(chosen, p4).
        and_then
          (for_each (json_line_body fo rnd sale_id) (enumerate1 chosen)
             (sale_lines', fzero fo, p4))
          (\<lambda>(sale_lines'', total', p5).
        and_then (randint rnd 0 DATE_RANGE_SECONDS p5) (\<lambda>(ts, p6).
          Inr (sales_hdr @
                 [\<lparr>sh_sale_id = sale_id, sh_timestamp = ts, sh_customer_id = c_id cust,
                   sh_store_id = st_id st, sh_employee_id = e_id emp,
                   sh_total_amount = fround2 fo total'\<rparr>],
               sale_lines'', p6)))))))))"

definition json_sales ::
  "'f float_ops \<Rightarrow> (nat \<Rightarrow> nat) \<Rightarrow> (nat \<Rightarrow> nat) \<Rightarrow> 'f base \<Rightarrow> nat \<Rightarrow> nat
     \<Rightarrow> py_error + 'f sale_hdr list \<times> 'f sale_line list \<times> nat" where
  "json_sales fo rnd zipf_ids b SALES pos =
     for_each (json_sale_body fo rnd zipf_ids b) (map (\<lambda>i. int i + 1) [0..<SALES]) ([], [], pos)"


subsection \<open>The SQL script that \<^verbatim>\<open>sql/generator.py\<close> writes\<close>

text \<open>
  \<^verbatim>\<open>chunks(iterable, size)\<close> yields lists of \<open>size\<close> elements, the last one shorter,
  until the first empty one.
\<close>

function chunks :: "nat \<Rightarrow> 'a list \<Rightarrow> 'a list list" where
  "chunks n xs = (let batch = take n xs in if batch = [] then [] else batch # chunks n (drop n xs))"
  by pat_completeness auto
termination
  by (relation "measure (\<lambda>(n, xs). length xs)") auto

text \<open>
  \<^verbatim>\<open>build_insert\<close> makes one \<^verbatim>\<open>INSERT\<close> statement of a batch; the values stay values
  instead of the literals that \<^verbatim>\<open>fmt_value\<close> prints. \<^verbatim>\<open>write_batches\<close> writes one
  statement for each batch of \<^verbatim>\<open>BATCH_SIZE\<close> rows.
\<close>

definition build_insert :: "string \<Rightarrow> string list \<Rightarrow> 'f pyval list list \<Rightarrow> 'f sql_stmt" where
  "build_insert table columns rows = InsertStmt table columns rows"

definition write_batches :: "'f pyval list list \<Rightarrow> string \<Rightarrow> string list \<Rightarrow> 'f sql_stmt list" where
  "write_batches data table columns = map (build_insert table columns) (chunks BATCH_SIZE data)"

text \<open>The statements of the string \<^verbatim>\<open>DDL\<close>, each named by its first words.\<close>

definition DDL :: "'f sql_stmt list" where
  "DDL =
     [DdlStmt ''CREATE TABLE Category'', DdlStmt ''CREATE TABLE Product'',
      DdlStmt ''CREATE TABLE Store'', DdlStmt ''CREATE TABLE Employee'',
      DdlStmt ''CREATE TABLE Customer'', DdlStmt ''CREATE TABLE Inventory'',
      DdlStmt ''CREATE TABLE Sale'', DdlStmt ''CREATE TABLE SaleLine'',
      DdlStmt ''CREATE INDEX idx_sale_timestamp'', DdlStmt ''CREATE INDEX idx_product_category'']"

text \<open>The tuples of the tables, as the rows of values that \<^verbatim>\<open>build_insert\<close> gets.\<close>

definition category_tuple :: "int \<times> string \<Rightarrow> 'f pyval list" where
  "category_tuple c = [PyInt (fst c), PyStr (snd c)]"

definition product_tuple :: "'f product \<Rightarrow> 'f pyval list" where
  "product_tuple p =
     [PyInt (product_id p), PyStr (product_name p), PyFloat (product_price p),
      PyInt (product_category_id p)]"

definition store_tuple :: "store \<Rightarrow> 'f pyval list" where
  "store_tuple s = [PyInt (st_id s), PyStr (st_name s), PyStr (st_address s)]"

definition employee_tuple :: "employee \<Rightarrow> 'f pyval list" where
  "employee_tuple e =
     [PyInt (e_id e), PyStr (e_first_name e), PyStr (e_last_name e), PyStr (e_position e),
      PyInt (e_store_id e)]"

definition customer_tuple :: "customer \<Rightarrow> 'f pyval list" where
  "customer_tuple c =
     [PyInt (c_id c), PyStr (c_first_name c), PyStr (c_last_name c), PyStr (c_email c)]"

definition inventory_tuple :: "inventory_entry \<Rightarrow> 'f pyval list" where
  "inventory_tuple i = [PyInt (i_store_id i), PyInt (i_product_id i), PyInt (i_quantity i)]"

definition sale_tuple :: "'f sale_hdr \<Rightarrow> 'f pyval list" where
  "sale_tuple h =
     [PyInt (sh_sale_id h), PyDateTime (sh_timestamp h), PyInt (sh_customer_id h),
      PyInt (sh_store_id h), PyInt (sh_employee_id h), PyFloat (sh_total_amount h)]"

definition sale_line_tuple :: "'f sale_line \<Rightarrow> 'f pyval list" where
  "sale_line_tuple l =
     [PyInt (sl_sale_id l), PyInt (sl_line_number l), PyInt (sl_product_id l),
      PyInt (sl_quantity l), PyFloat (sl_unit_price l), PyFloat (sl_line_total l)]"

text \<open>
  What the script writes to \<^verbatim>\<open>commerce_load.sql\<close>: the \<^verbatim>\<open>DDL\<close>, the batches of the
  eight tables, and \<^verbatim>\<open>COMMIT;\<close>.
\<close>

definition commerce_load_sql :: "'f base \<Rightarrow> 'f sale_hdr list \<Rightarrow> 'f sale_line list \<Rightarrow> 'f sql_stmt list" where
  "commerce_load_sql b sales sale_lines' =
     DDL @
     write_batches (map category_tuple (categories b)) ''Category'' [''category_id'', ''name''] @
     write_batches (map product_tuple (products b)) ''Product''
       [''product_id'', ''name'', ''price'', ''category_id''] @
     write_batches (map store_tuple (stores b)) ''Store'' [''store_id'', ''name'', ''address''] @
     write_batches (map employee_tuple (employees b)) ''Employee''
       [''employee_id'', ''first_name'', ''last_name'', ''position'', ''store_id''] @
     write_batches (map customer_tuple (customers b)) ''Customer''
       [''customer_id'', ''first_name'', ''last_name'', ''email''] @
     write_batches (map inventory_tuple (inventory b)) ''Inventory''
       [''store_id'', ''product_id'', ''quantity''] @
     write_batches (map sale_tuple sales) ''Sale''
       [''sale_id'', ''sale_timestamp'', ''customer_id'', ''store_id'', ''employee_id'',
        ''total_amount''] @
     write_batches (map sale_line_tuple sale_lines') ''SaleLine''
       [''sale_id'', ''line_number'', ''product_id'', ''quantity'', ''unit_price'',
        ''line_total''] @
     [CommitStmt]"

subsection \<open>The documents that \<^verbatim>\<open>json/generator.py\<close> builds\<close>

text \<open>
  A dictionary comprehension \<^verbatim>\<open>{k: v for ...}\<close> stores the pairs in turn, a later one
  over an earlier one with the same key; \<^verbatim>\<open>d[k]\<close> raises for a missing key.
\<close>

definition py_dict :: "('k \<times> 'v) list \<Rightarrow> ('k \<times> 'v) list" where
  "py_dict kvs = foldl (\<lambda>d kv. AList.update (fst kv) (snd kv) d) [] kvs"

definition getitem :: "('k \<times> 'v) list \<Rightarrow> 'k \<Rightarrow> py_error + 'v" where
  "getitem d k = (case map_of d k of None \<Rightarrow> Inl KeyError | Some v \<Rightarrow> Inr v)"

text \<open>A loop that appends one value for each element, or raises.\<close>

definition collect :: "('a \<Rightarrow> 'e + 'b) \<Rightarrow> 'a list \<Rightarrow> 'e + 'b list" where
  "collect f xs = for_each (\<lambda>x acc. and_then (f x) (\<lambda>y. Inr (acc @ [y]))) xs []"

text \<open>
  \<^verbatim>\<open>lines_by_sale.setdefault(line["sale_id"], []).append(line)\<close> for each line.
\<close>

definition lines_by_sale :: "'f sale_line list \<Rightarrow> (int \<times> 'f sale_line list) list" where
  "lines_by_sale sale_lines' =
     foldl (\<lambda>d line.
              AList.update (sl_sale_id line) (get_or (map_of d (sl_sale_id line)) [] @ [line]) d)
       [] sale_lines'"

text \<open>The embedded product: its name, the name of its category, its price.\<close>

definition embedded_product ::
  "(int \<times> string) list \<Rightarrow> 'f product \<Rightarrow> py_error + 'f product_doc" where
  "embedded_product cat_by_id pr =
     and_then (getitem cat_by_id (product_category_id pr)) (\<lambda>cname.
       Inr \<lparr>prod_name = product_name pr, prod_category = cname,
            prod_price = PyFloat (product_price pr)\<rparr>)"

definition embedded_inventory ::
  "(int \<times> string) list \<Rightarrow> (int \<times> 'f product) list \<Rightarrow> inventory_entry \<Rightarrow> py_error + 'f inv_doc"
  where
  "embedded_inventory cat_by_id prod_by_id inv' =
     and_then (getitem prod_by_id (i_product_id inv')) (\<lambda>pr.
     and_then (embedded_product cat_by_id pr) (\<lambda>p.
       Inr \<lparr>inv_product = p, inv_quantity = PyInt (i_quantity inv')\<rparr>))"

definition embedded_employee :: "employee \<Rightarrow> emp_doc" where
  "embedded_employee e =
     \<lparr>emp_first_name = e_first_name e, emp_last_name = e_last_name e,
      emp_position = Some (e_position e)\<rparr>"

text \<open>The body of \<^verbatim>\<open>for st in stores\<close>, which gives one store document.\<close>

definition store_document :: "'f base \<Rightarrow> store \<Rightarrow> py_error + 'f store_doc" where
  "store_document b st =
     (let cat_by_id = py_dict (categories b);
          prod_by_id = py_dict (map (\<lambda>p. (product_id p, p)) (products b))
      in and_then
           (collect (embedded_inventory cat_by_id prod_by_id)
              (filter (\<lambda>i. i_store_id i = st_id st) (inventory b))) (\<lambda>inv_embedded.
         let emp_embedded =
               map embedded_employee (filter (\<lambda>e. e_store_id e = st_id st) (employees b))
         in Inr \<lparr>store_name = st_name st, store_address = Some (st_address st),
                 store_employees = Some emp_embedded, store_inventory = Some inv_embedded\<rparr>))"

definition store_docs :: "'f base \<Rightarrow> py_error + 'f store_doc list" where
  "store_docs b = collect (store_document b) (stores b)"

text \<open>
  The body of \<^verbatim>\<open>for sh in sales_hdr\<close>, which gives one sale document; \<open>strftime\<close> is
  \<^verbatim>\<open>dt.strftime("%Y-%m-%dT%H:%M:%SZ")\<close> on the datetime at an offset from
  \<^verbatim>\<open>START_DATE\<close>.
\<close>

definition embedded_line ::
  "(int \<times> string) list \<Rightarrow> (int \<times> 'f product) list \<Rightarrow> 'f sale_line \<Rightarrow> py_error + 'f line_doc"
  where
  "embedded_line cat_by_id prod_by_id ln =
     and_then (getitem prod_by_id (sl_product_id ln)) (\<lambda>pr.
     and_then (embedded_product cat_by_id pr) (\<lambda>p.
       Inr \<lparr>line_product = p, line_quantity = PyInt (sl_quantity ln),
            line_total = PyFloat (sl_line_total ln)\<rparr>))"

definition sale_document ::
  "(int \<Rightarrow> string) \<Rightarrow> 'f base \<Rightarrow> 'f sale_line list \<Rightarrow> 'f sale_hdr \<Rightarrow> py_error + 'f sale_doc"
  where
  "sale_document strftime b sale_lines' sh =
     (let cat_by_id = py_dict (categories b);
          prod_by_id = py_dict (map (\<lambda>p. (product_id p, p)) (products b));
          emp_by_id = py_dict (map (\<lambda>e. (e_id e, e)) (employees b));
          store_by_id = py_dict (map (\<lambda>s. (st_id s, s)) (stores b));
          cust_by_id = py_dict (map (\<lambda>c. (c_id c, c)) (customers b))
      in and_then (getitem store_by_id (sh_store_id sh)) (\<lambda>st.
         and_then (getitem emp_by_id (sh_employee_id sh)) (\<lambda>emp.
         and_then (getitem cust_by_id (sh_customer_id sh)) (\<lambda>cust.
         and_then (getitem (lines_by_sale sale_lines') (sh_sale_id sh)) (\<lambda>lns.
         and_then (collect (embedded_line cat_by_id prod_by_id) lns) (\<lambda>embedded_lines.
           Inr \<lparr>sale_timestamp = TsDate (strftime (sh_timestamp sh)),
                sale_store_name = st_name st,
                sale_emp_first_name = e_first_name emp, sale_emp_last_name = e_last_name emp,
                sale_customer =
                  \<lparr>cust_first_name = c_first_name cust, cust_last_name = c_last_name cust,
                   cust_email = c_email cust\<rparr>,
                sale_lines = embedded_lines,
                sale_total_amount = PyFloat (sh_total_amount sh)\<rparr>))))))"

definition sale_docs ::
  "(int \<Rightarrow> string) \<Rightarrow> 'f base \<Rightarrow> 'f sale_hdr list \<Rightarrow> 'f sale_line list
     \<Rightarrow> py_error + 'f sale_doc list" where
  "sale_docs strftime b sales_hdr sale_lines' =
     collect (sale_document strftime b sale_lines') sales_hdr"

section \<open>Reading a run\<close>





subsection \<open>Referential integrity\<close>









subsection \<open>What the loader is expected to copy\<close>

text \<open>
  \<open>first_seen_by f xs\<close> keeps, of the elements of \<open>xs\<close>, the first one for each key
  \<open>f x\<close>, in the order of \<open>xs\<close>; \<open>first_seen xs\<close> is the list of the distinct
  elements of \<open>xs\<close> in the order in which they are first met. \<open>numbered\<close> pairs the
  \<open>k\<close>-th element of a list with the number \<open>k\<close>, counting from 1.
\<close>

fun first_seen_by :: "('a \<Rightarrow> 'k) \<Rightarrow> 'a list \<Rightarrow> 'a list" where
  "first_seen_by f [] = []"
| "first_seen_by f (x # xs) = x # filter (\<lambda>y. f y \<noteq> f x) (first_seen_by f xs)"

definition first_seen :: "'a list \<Rightarrow> 'a list" where
  "first_seen xs = first_seen_by (\<lambda>x. x) xs"








text \<open>
  What the loops have gone through so far: the store documents with the id each was
  given, the employee and inventory entries with the id of their store, and the customers
  of the sales. \<open>hist_inv h s\<close> relates it to the variables \<open>s\<close>: it tells what
  each lookup table and each table of the database holds after the history \<open>h\<close>.
\<close>

record 'f history =
  h_stores :: "(int \<times> 'f store_doc) list"
  h_emps :: "(int \<times> emp_doc) list"
  h_invs :: "(int \<times> 'f inv_doc) list"
  h_custs :: "customer_doc list"

definition h_products :: "'f history \<Rightarrow> 'f product_doc list" where
  "h_products h = map (\<lambda>x. inv_product (snd x)) (h_invs h)"









definition store_ids :: "string list \<Rightarrow> int list" where
  "store_ids names = map (\<lambda>i. int (length (first_seen (take i names))) + 1) [0..<length names]"








subsection \<open>The shape of a run\<close>

text \<open>
  The commits that a run issues to the server: one for each \<^verbatim>\<open>conn.commit()\<close> and one
  for each \<^verbatim>\<open>COMMIT\<close> statement of a script that it executes.
\<close>


fun is_copy :: "'f pg_op \<Rightarrow> bool" where
  "is_copy (CopyExpert t c r) = True"
| "is_copy Connect = False"
| "is_copy (Execute script) = False"
| "is_copy Commit = False"

fun op_commits :: "'f pg_op \<Rightarrow> nat" where
  "op_commits Commit = 1"
| "op_commits (Execute script) = count_list script CommitStmt"
| "op_commits Connect = 0"
| "op_commits (CopyExpert t c r) = 0"

definition commits :: "'f pg_log \<Rightarrow> nat" where
  "commits log = sum_list (map op_commits log)"

text \<open>
  A property of the calls made so far that a further \<^verbatim>\<open>COPY\<close> keeps, and what it
  means for the result of a piece of the loader: the property holds of the calls made,
  whether the piece returned or raised.
\<close>

definition copy_closed :: "('f pg_log \<Rightarrow> bool) \<Rightarrow> bool" where
  "copy_closed P = (\<forall>log t c r. P log \<longrightarrow> P (log @ [CopyExpert t c r]))"

definition log_ok :: "('f pg_log \<Rightarrow> bool) \<Rightarrow> ('f, 'f ingest) pg_result \<Rightarrow> bool" where
  "log_ok P r = (case r of Inl (e, log) \<Rightarrow> P log | Inr s \<Rightarrow> P (cur s))"

definition line_log_ok :: "('f pg_log \<Rightarrow> bool) \<Rightarrow> ('f, int \<times> 'f ingest) pg_result \<Rightarrow> bool" where
  "line_log_ok P r = (case r of Inl (e, log) \<Rightarrow> P log | Inr st \<Rightarrow> P (cur (snd st)))"

text \<open>The calls of \<^verbatim>\<open>load_postgres_from_json\<close> inside its loops: the connection, the schema
  script, and copies only.\<close>

definition loading :: "'f sql_stmt list \<Rightarrow> 'f pg_log \<Rightarrow> bool" where
  "loading ddl log =
     (\<exists>copies. log = [Connect, Execute ddl] @ copies \<and> list_all is_copy copies)"
section \<open>Example inputs\<close>

text \<open>
  A catalog of one store with one employee and one product in stock, and one sale of that
  store with two lines, the first for a product that no inventory holds.
\<close>

definition example_catalog :: "int store_doc list" where
  "example_catalog =
     [\<lparr>store_name = ''Tienda Uno'', store_address = Some ''Calle 1'',
       store_employees =
         Some [\<lparr>emp_first_name = ''Ana'', emp_last_name = ''Lopez'', emp_position = None\<rparr>],
       store_inventory =
         Some [\<lparr>inv_product =
                  \<lparr>prod_name = ''Lapiz'', prod_category = ''Papeleria'', prod_price = PyInt 3\<rparr>,
                inv_quantity = PyInt 7\<rparr>]\<rparr>]"

definition example_sales :: "int sale_doc list" where
  "example_sales =
     [\<lparr>sale_timestamp = TsDate ''2024-01-01T00:00:00Z'', sale_store_name = ''Tienda Uno'',
       sale_emp_first_name = ''Ana'', sale_emp_last_name = ''Lopez'',
       sale_customer =
         \<lparr>cust_first_name = ''Eva'', cust_last_name = ''Ruiz'', cust_email = ''eva@example.org''\<rparr>,
       sale_lines =
         [\<lparr>line_product =
             \<lparr>prod_name = ''Goma'', prod_category = ''Papeleria'', prod_price = PyInt 2\<rparr>,
           line_quantity = PyInt 1, line_total = PyInt 2\<rparr>,
          \<lparr>line_product =
             \<lparr>prod_name = ''Lapiz'', prod_category = ''Papeleria'', prod_price = PyInt 3\<rparr>,
           line_quantity = PyInt 2, line_total = PyInt 6\<rparr>],
       sale_total_amount = PyInt 8\<rparr>]"


text \<open>The calls of the loader on the example catalog and sales, with a server that accepts all.\<close>

definition example_log :: "int pg_log" where
  "example_log =
     [Connect, Execute [],
      CopyExpert ''store'' [''store_id'', ''name'', ''address'']
        [[PyInt 1, PyStr ''Tienda Uno'', PyStr ''Calle 1'']],
      CopyExpert ''employee''
        [''employee_id'', ''first_name'', ''last_name'', ''position'', ''store_id'']
        [[PyInt 1, PyStr ''Ana'', PyStr ''Lopez'', PyStr [], PyInt 1]],
      CopyExpert ''category'' [''category_id'', ''name''] [[PyInt 1, PyStr ''Papeleria'']],
      CopyExpert ''product'' [''product_id'', ''name'', ''price'', ''category_id'']
        [[PyInt 1, PyStr ''Lapiz'', PyInt 3, PyInt 1]],
      CopyExpert ''inventory'' [''store_id'', ''product_id'', ''quantity'']
        [[PyInt 1, PyInt 1, PyInt 7]],
      CopyExpert ''customer'' [''customer_id'', ''first_name'', ''last_name'', ''email'']
        [[PyInt 1, PyStr ''Eva'', PyStr ''Ruiz'', PyStr ''eva@example.org'']],
      CopyExpert ''sale''
        [''sale_id'', ''sale_timestamp'', ''customer_id'', ''store_id'', ''employee_id'',
         ''total_amount'']
        [[PyInt 1, PyStr ''2024-01-01T00:00:00'', PyInt 1, PyInt 1, PyInt 1, PyInt 8]],
      CopyExpert ''saleline''
        [''sale_id'', ''line_number'', ''product_id'', ''quantity'', ''unit_price'',
         ''line_total'']
        [[PyInt 1, PyInt 1, PyInt 1, PyInt 2, PyInt 3, PyInt 6]],
      Commit]"


text \<open>
  A run of \<^verbatim>\<open>main\<close> on the example files with empty SQL scripts, servers that accept
  every call and a clock whose \<open>n\<close>-th reading is \<open>n\<^sup>2\<close>, and what it leaves behind.
\<close>

definition example_clock :: "nat \<Rightarrow> int" where
  "example_clock n = int (n * n)"

definition example_benchmark :: "int benchmark" where
  "example_benchmark =
     \<lparr>pg_sql_calls = [Connect, Execute [], Commit],
      pg_json_calls = example_log,
      mongo_catalog_calls =
        [MongoClient, Drop ''commerce'' ''stores'',
         InsertStores ''commerce'' ''stores'' example_catalog, Close],
      mongo_sales_calls =
        [MongoClient, Drop ''commerce'' ''sales'',
         InsertSales ''commerce'' ''sales'' example_sales, Close],
      ingest_times_csv =
        [[PyStr ''step'', PyStr ''duration_seconds''],
         [PyStr ''postgres_sql'', PyFloat 1],
         [PyStr ''postgres_json'', PyFloat 5],
         [PyStr ''mongo_catalog'', PyFloat 9],
         [PyStr ''mongo_sales'', PyFloat 13]]\<rparr>"
section \<open>\<^verbatim>\<open>copy_rows\<close>\<close>

text \<open>
  C10. \<^verbatim>\<open>copy_rows\<close> called with no rows returns at once: it makes no call on the
  cursor, whatever the server would answer, and the connection is as it was.
\<close>

theorem copy_rows_empty_noop: "copy_rows cl cur0 table columns [] = Inr cur0"
  by (simp add: copy_rows_def)


section \<open>Loops\<close>

lemma for_each_ok:
  assumes "\<And>x s. x \<in> set xs \<Longrightarrow> P s \<Longrightarrow> (case body x s of Inl e \<Rightarrow> Q e | Inr s' \<Rightarrow> P s')"
    and "P s"
  shows "case for_each body xs s of Inl e \<Rightarrow> Q e | Inr s' \<Rightarrow> P s'"
  using assms
proof (induction xs arbitrary: s)
  case Nil
  then show ?case by simp
next
  case (Cons x xs)
  show ?case
  proof (cases "body x s")
    case (Inl e)
    with Cons.prems(1)[of x s] Cons.prems(2) show ?thesis by (simp add: and_then_def)
  next
    case (Inr s')
    with Cons.prems(1)[of x s] Cons.prems(2) have "P s'" by simp
    with Cons.IH[of s'] Cons.prems(1) Inr show ?thesis by (simp add: and_then_def)
  qed
qed

section \<open>Referential integrity of \<^verbatim>\<open>load_postgres_from_json\<close>\<close>
























section \<open>What \<^verbatim>\<open>load_postgres_from_json\<close> copies\<close>














lemma with_cur_copy_Inl:
  "with_cur s (copy_rows cl c t cols [row]) = Inl e \<longleftrightarrow>
     cl c (CopyExpert (lower t) cols [row]) \<and> e = (ClientError, c)"
  by (auto simp: with_cur_def copy_rows_def pg_call_def and_then_def)


lemma and_then_Inl: "and_then r f = Inl e \<longleftrightarrow> r = Inl e \<or> (\<exists>x. r = Inr x \<and> f x = Inl e)"
  by (cases r) (auto simp: and_then_def)















lemma h_products_snoc [simp]:
  "h_products (h\<lparr>h_invs := h_invs h @ [(sid, i)]\<rparr>) = h_products h @ [inv_product i]"
  by (simp add: h_products_def)




















lemma length_store_ids [simp]: "length (store_ids ns) = length ns"
  by (simp add: store_ids_def)







section \<open>Id assignment\<close>










section \<open>\<^verbatim>\<open>main\<close>\<close>

lemma timed_Inr:
  "timed perf_counter fsub n fn = Inr x \<longleftrightarrow>
     (\<exists>result. fn = Inr result \<and>
        x = ((fsub (perf_counter (n + 1)) (perf_counter n), result), n + 2))"
  by (auto simp: timed_def Let_def split: sum.splits)

lemma timed_Inl:
  "timed perf_counter fsub n fn = Inl e \<longleftrightarrow> (\<exists>l. fn = Inl (e, l))"
  by (auto simp: timed_def Let_def split: sum.splits)

lemma main_Inr:
  "main perf_counter fsub cl_sql cl_json cl_catalog cl_sales sql_file ddl catalog sales_docs = Inr b
   \<longleftrightarrow>
   (\<exists>log_sql log_json log_cat log_sales.
      load_postgres_sql cl_sql sql_file = Inr log_sql \<and>
      load_postgres_from_json cl_json ddl catalog sales_docs = Inr log_json \<and>
      load_mongo_catalog cl_catalog catalog = Inr log_cat \<and>
      load_mongo_sales cl_sales sales_docs = Inr log_sales \<and>
      b = \<lparr>pg_sql_calls = log_sql, pg_json_calls = log_json,
           mongo_catalog_calls = log_cat, mongo_sales_calls = log_sales,
           ingest_times_csv =
             [[PyStr ''step'', PyStr ''duration_seconds''],
              [PyStr ''postgres_sql'', PyFloat (fsub (perf_counter 1) (perf_counter 0))],
              [PyStr ''postgres_json'', PyFloat (fsub (perf_counter 3) (perf_counter 2))],
              [PyStr ''mongo_catalog'', PyFloat (fsub (perf_counter 5) (perf_counter 4))],
              [PyStr ''mongo_sales'', PyFloat (fsub (perf_counter 7) (perf_counter 6))]]\<rparr>)"
  by (cases "load_postgres_sql cl_sql sql_file";
      cases "load_postgres_from_json cl_json ddl catalog sales_docs";
      cases "load_mongo_catalog cl_catalog catalog";
      cases "load_mongo_sales cl_sales sales_docs")
    (auto simp: main_def timed_def and_then_def Let_def numeral_eq_Suc split: prod.splits)

lemma example_main:
  "main example_clock (-) never_fails never_fails mongo_never_fails mongo_never_fails [] []
     example_catalog example_sales = Inr example_benchmark"
  by code_simp

text \<open>
  C6. When \<^verbatim>\<open>main\<close> returns, each of the four loaders has run and returned, in the
  order \<^verbatim>\<open>load_postgres_sql\<close>, \<^verbatim>\<open>load_postgres_from_json\<close>,
  \<^verbatim>\<open>load_mongo_catalog\<close>, \<^verbatim>\<open>load_mongo_sales\<close>, each between two readings of the
  clock, and \<^verbatim>\<open>ingest_times.csv\<close> holds the header row \<^verbatim>\<open>step,duration_seconds\<close>
  followed by the rows \<^verbatim>\<open>postgres_sql\<close>, \<^verbatim>\<open>postgres_json\<close>, \<^verbatim>\<open>mongo_catalog\<close> and
  \<^verbatim>\<open>mongo_sales\<close>, each with the difference of the two readings around its loader. So
  each of the three ingestion paths has a recorded duration. \<^verbatim>\<open>main\<close> returns whenever
  the four loaders return.
\<close>

theorem main_records_every_step:
  "(main perf_counter fsub cl_sql cl_json cl_catalog cl_sales sql_file ddl catalog sales_docs =
      Inr b \<longrightarrow>
    ingest_times_csv b =
      [[PyStr ''step'', PyStr ''duration_seconds''],
       [PyStr ''postgres_sql'', PyFloat (fsub (perf_counter 1) (perf_counter 0))],
       [PyStr ''postgres_json'', PyFloat (fsub (perf_counter 3) (perf_counter 2))],
       [PyStr ''mongo_catalog'', PyFloat (fsub (perf_counter 5) (perf_counter 4))],
       [PyStr ''mongo_sales'', PyFloat (fsub (perf_counter 7) (perf_counter 6))]] \<and>
    load_postgres_sql cl_sql sql_file = Inr (pg_sql_calls b) \<and>
    load_postgres_from_json cl_json ddl catalog sales_docs = Inr (pg_json_calls b) \<and>
    load_mongo_catalog cl_catalog catalog = Inr (mongo_catalog_calls b) \<and>
    load_mongo_sales cl_sales sales_docs = Inr (mongo_sales_calls b)) \<and>
   (load_postgres_sql cl_sql sql_file = Inr log_sql \<and>
    load_postgres_from_json cl_json ddl catalog sales_docs = Inr log_json \<and>
    load_mongo_catalog cl_catalog catalog = Inr log_cat \<and>
    load_mongo_sales cl_sales sales_docs = Inr log_sales \<longrightarrow>
    (\<exists>b'. main perf_counter fsub cl_sql cl_json cl_catalog cl_sales sql_file ddl catalog
            sales_docs = Inr b'))"
  unfolding main_Inr by auto

theorem main_records_every_step_witness:
  "main example_clock (-) never_fails never_fails mongo_never_fails mongo_never_fails [] []
     example_catalog example_sales = Inr example_benchmark \<and>
   ingest_times_csv example_benchmark =
     [[PyStr ''step'', PyStr ''duration_seconds''],
      [PyStr ''postgres_sql'', PyFloat (example_clock 1 - example_clock 0)],
      [PyStr ''postgres_json'', PyFloat (example_clock 3 - example_clock 2)],
      [PyStr ''mongo_catalog'', PyFloat (example_clock 5 - example_clock 4)],
      [PyStr ''mongo_sales'', PyFloat (example_clock 7 - example_clock 6)]] \<and>
   load_mongo_sales mongo_never_fails example_sales = Inr (mongo_sales_calls example_benchmark)"
  using main_records_every_step
      [of example_clock "(-)" never_fails never_fails mongo_never_fails mongo_never_fails
        "[]" "[]" example_catalog example_sales example_benchmark]
    example_main
  by blast

section \<open>Commits\<close>


lemma log_ok_copy:
  "copy_closed P \<Longrightarrow> P c \<Longrightarrow> log_ok P (with_cur s (copy_rows cl c t cols rows))"
  by (auto simp: log_ok_def with_cur_def copy_rows_def pg_call_def and_then_def copy_closed_def)

lemma log_ok_and_then:
  "log_ok P r \<Longrightarrow> (\<And>s. r = Inr s \<Longrightarrow> P (cur s) \<Longrightarrow> log_ok P (f s)) \<Longrightarrow> log_ok P (and_then r f)"
  by (cases r) (auto simp: and_then_def log_ok_def)

lemma log_ok_for_each:
  assumes "\<And>x s. P (cur s) \<Longrightarrow> log_ok P (body x s)" and "P (cur s)"
  shows "log_ok P (for_each body xs s)"
  unfolding log_ok_def
  by (rule for_each_ok[where P = "\<lambda>s. P (cur s)"]) (use assms in \<open>auto simp: log_ok_def\<close>)

lemma log_ok_Inr [simp]: "log_ok P (Inr s) = P (cur s)"
  by (simp add: log_ok_def)

lemma log_ok_Inl [simp]: "log_ok P (Inl (e, log)) = P log"
  by (simp add: log_ok_def)

lemma employee_body_log:
  "copy_closed P \<Longrightarrow> P (cur s) \<Longrightarrow> log_ok P (employee_body cl s_id emp s)"
  unfolding employee_body_def Let_def by (rule log_ok_copy) simp_all

lemma category_part_log:
  "copy_closed P \<Longrightarrow> P (cur s) \<Longrightarrow> log_ok P (category_part cl c s)"
  unfolding category_part_def Let_def
  by (auto split: option.splits intro!: log_ok_copy)

lemma product_part_log:
  "copy_closed P \<Longrightarrow> P (cur s) \<Longrightarrow> log_ok P (product_part cl p c s)"
  unfolding product_part_def Let_def
  by (auto split: option.splits intro!: log_ok_copy)

lemma customer_part_log:
  "copy_closed P \<Longrightarrow> P (cur s) \<Longrightarrow> log_ok P (customer_part cl c s)"
  unfolding customer_part_def Let_def
  by (auto split: option.splits intro!: log_ok_copy)

lemma inventory_body_log:
  "copy_closed P \<Longrightarrow> P (cur s) \<Longrightarrow> log_ok P (inventory_body cl s_id i s)"
  unfolding inventory_body_def Let_def
  by (intro log_ok_and_then category_part_log product_part_log)
    (auto split: option.splits intro!: log_ok_copy)

lemma store_body_log:
  "copy_closed P \<Longrightarrow> P (cur s) \<Longrightarrow> log_ok P (store_body cl d s)"
  unfolding store_body_def Let_def
  by (intro log_ok_and_then log_ok_for_each employee_body_log inventory_body_log log_ok_copy)
    simp_all

lemma line_body_log:
  "copy_closed P \<Longrightarrow> P (cur (snd st)) \<Longrightarrow> line_log_ok P (line_body cl sale_id ln st)"
  by (cases st)
    (auto simp: line_body_def line_log_ok_def with_cur_def copy_rows_def pg_call_def and_then_def
      copy_closed_def split: option.splits)

lemma line_loop_log:
  assumes "copy_closed P" "P (cur (snd st))"
  shows "line_log_ok P (for_each (line_body cl sale_id) lns st)"
  unfolding line_log_ok_def
  by (rule for_each_ok[where P = "\<lambda>st. P (cur (snd st))"])
    (use assms line_body_log[OF assms(1)] in \<open>auto simp: line_log_ok_def\<close>)

lemma sale_body_log:
  assumes "copy_closed P" "P (cur s)"
  shows "log_ok P (sale_body cl sale s)"
  unfolding sale_body_def Let_def
proof (rule log_ok_and_then[OF customer_part_log[OF assms]], goal_cases)
  case (1 s1)
  show ?case
  proof (cases "map_of (store_map s1) (sale_store_name sale)")
    case None
    with 1 show ?thesis by simp
  next
    case (Some store_id)
    show ?thesis
    proof (cases "map_of (employee_map s1)
        (sale_emp_first_name sale, sale_emp_last_name sale, store_id)")
      case None
      with 1 Some show ?thesis by simp
    next
      case emp: (Some employee_id)
      show ?thesis
      proof (cases "map_of (customers_map s1) (cust_email (sale_customer sale))")
        case None
        with 1 Some emp show ?thesis by simp
      next
        case cu: (Some customer_id)
        have "log_ok P
          (and_then
            (with_cur (s1\<lparr>next_sale := next_sale s1 + 1\<rparr>)
              (copy_rows cl (cur s1) ''sale''
                [''sale_id'', ''sale_timestamp'', ''customer_id'', ''store_id'',
                 ''employee_id'', ''total_amount'']
                [[PyInt (next_sale s1), PyStr (extract_ts (sale_timestamp sale)),
                  PyInt customer_id, PyInt store_id, PyInt employee_id,
                  sale_total_amount sale]]))
            (\<lambda>s3. and_then (for_each (line_body cl (next_sale s1)) (sale_lines sale) (1, s3))
                    (\<lambda>st. Inr (snd st))))"
        proof (rule log_ok_and_then[OF log_ok_copy[OF assms(1)]], goal_cases)
          case 1
          then show ?case using \<open>P (cur s1)\<close> .
        next
          case (2 s3)
          from line_loop_log[OF assms(1), of "(1, s3)" cl "next_sale s1" "sale_lines sale"] 2
          show ?case
            by (auto simp: line_log_ok_def log_ok_def and_then_def split: sum.splits)
        qed
        with Some emp cu show ?thesis by simp
      qed
    qed
  qed
qed

lemma copy_closed_loading: "copy_closed (loading ddl)"
  by (fastforce simp: copy_closed_def loading_def)

lemma load_json_log:
  "case load_postgres_from_json cl ddl catalog sales_docs of
     Inl (e, log) \<Rightarrow> log = [] \<or> log = [Connect] \<or> loading ddl log
   | Inr log \<Rightarrow> (\<exists>copies. log = [Connect, Execute ddl] @ copies @ [Commit] \<and> list_all is_copy copies)"
proof -
  have 0: "loading ddl (cur (ingest_init [Connect, Execute ddl]))"
    by (simp add: loading_def ingest_init_def)
  have 1: "log_ok (loading ddl) (for_each (store_body cl) catalog (ingest_init [Connect, Execute ddl]))"
    by (rule log_ok_for_each[OF store_body_log[OF copy_closed_loading] 0])
  have 2: "log_ok (loading ddl) (and_then (for_each (store_body cl) catalog (ingest_init [Connect, Execute ddl]))
            (for_each (sale_body cl) sales_docs))"
    by (rule log_ok_and_then[OF 1]) (rule log_ok_for_each[OF sale_body_log[OF copy_closed_loading]])
  have split: "loading ddl log \<Longrightarrow> \<exists>copies. log @ [Commit] = [Connect, Execute ddl] @ copies @ [Commit] \<and> list_all is_copy copies" for log
    by (auto simp: loading_def)
  from 2 show ?thesis
    by (auto simp: load_postgres_from_json_def pg_call_def and_then_def log_ok_def
        split: sum.splits dest: split)
qed
end
